theory Spec2Isabelle
  imports Main
begin

section \<open>The certificate issuing handler of cursed/web.go\<close>

text \<open>
  The file holds two functions: \<open>webHandler\<close>, the HTTP handler that authenticates the
  reverse proxy, reads the form parameters, fingerprints the submitted public key, logs the
  request, validates the parameters, asks the key-age store whether the key is too old,
  builds the certificate options and has the key signed; and \<open>validateHTTPParams\<close>, the
  parameter validation.

  Go strings are byte sequences, and \<open>len\<close> counts bytes: they are modelled as
  \<^typ>\<open>string\<close>, a list of 8-bit characters, with \<^const>\<open>length\<close> for \<open>len\<close>. A Go
  \<open>error\<close> is modelled by its message text, \<open>nil\<close> by \<^const>\<open>None\<close>. A \<open>time.Time\<close> is an
  integer number of nanoseconds since the epoch and a \<open>time.Duration\<close> an integer number of
  nanoseconds, so that \<open>t.Add(d)\<close> is \<open>t + d\<close> (no clock reading of this century plus a
  64-bit duration leaves the range of \<open>time.Time\<close>).
\<close>

type_synonym error = string
type_synonym time = int
type_synonym duration = int

text \<open>The parsed key, an \<open>ssh.PublicKey\<close>, is opaque to the handler: it is only handed to
  the fingerprint function. It is modelled by its wire encoding.\<close>

type_synonym pubkey = string

subsection \<open>Data\<close>

record httpParams =
  bastionIP :: string
  bastionUser :: string
  cmd :: string
  key :: string
  remoteUser :: string
  userIP :: string

text \<open>The type \<open>config\<close> is declared in another file of the package; these are the fields
  that web.go reads. \<open>userRegex\<close> stands for \<open>conf.userRegex.MatchString\<close>, \<open>caSigner\<close> is
  the opaque handle of the CA's signing key, \<open>exts\<close> the extension set copied into every
  certificate.\<close>

type_synonym extensions = "(string \<times> string) list"

record config =
  ProxyUser :: string
  ProxyPass :: string
  UserHeader :: string
  ForceCmd :: bool
  RequireClientIP :: bool
  userRegex :: "string \<Rightarrow> bool"
  dur :: duration
  exts :: extensions
  caSigner :: string

text \<open>The type \<open>certConfig\<close> is declared in another file as well; these are the fields the
  handler sets. \<open>ssh.UserCert\<close> is the constant 1 of the ssh library.\<close>

definition UserCert :: nat where
  "UserCert = 1"

record certConfig =
  certType :: nat
  command :: string
  extensions :: extensions
  keyID :: string
  principals :: "string list"
  srcAddr :: string
  validAfter :: time
  validBefore :: time

text \<open>What the handler reads of the \<open>*http.Request\<close>: the result of \<open>r.BasicAuth()\<close>
  (\<open>None\<close> when \<open>ok\<close> is false), \<open>r.PostFormValue\<close> and \<open>r.Header.Get\<close>.\<close>

record request =
  BasicAuth :: "(string \<times> string) option"
  PostFormValue :: "string \<Rightarrow> string"
  HeaderGet :: "string \<Rightarrow> string"

text \<open>The HTTP status codes of net/http that the handler uses.\<close>

definition StatusBadRequest :: nat where
  "StatusBadRequest = 400"

definition StatusUnauthorized :: nat where
  "StatusUnauthorized = 401"

definition StatusUnprocessableEntity :: nat where
  "StatusUnprocessableEntity = 422"

definition StatusInternalServerError :: nat where
  "StatusInternalServerError = 500"

subsection \<open>Collaborators\<close>

text \<open>
  The functions the handler calls and that are not in web.go are parameters of the model:
  \<open>ssh.ParseAuthorizedKey\<close> (\<open>None\<close> when it returns an error; the handler only tests
  \<open>err != nil\<close>), \<open>ssh.FingerprintLegacyMD5\<close>, the other fingerprint function of the same
  library \<open>ssh.FingerprintSHA256\<close> (which the handler does not call), \<open>validIP\<close>,
  \<open>Time.Format(time.RFC3339)\<close>, \<open>checkPubKeyAge\<close> (it returns \<open>(bool, error)\<close>, and works on a
  key-age store of type \<open>'db\<close> that it may update) and \<open>signPubKey\<close> (an error or the bytes of
  the authorized key).
\<close>

record 'db env =
  ParseAuthorizedKey :: "string \<Rightarrow> pubkey option"
  FingerprintLegacyMD5 :: "pubkey \<Rightarrow> string"
  FingerprintSHA256 :: "pubkey \<Rightarrow> string"
  validIP :: "string \<Rightarrow> bool"
  FormatRFC3339 :: "time \<Rightarrow> string"
  checkPubKeyAge :: "config \<Rightarrow> string \<Rightarrow> 'db \<Rightarrow> (bool \<times> error option) \<times> 'db"
  signPubKey :: "string \<Rightarrow> string \<Rightarrow> certConfig \<Rightarrow> error + string"

subsection \<open>Effects\<close>

text \<open>
  One constructor for each \<open>log.Printf\<close> call site, with the arguments of the call:
  \<open>Invalid proxy credentials\<close>, \<open>Unable to parse authorized key |%s|\<close> with the key,
  \<open>Request: |%s|\<close> with the key-id, \<open>errMsg\<close> of the validation failure (which the
  source hands to \<open>log.Printf\<close> as the format string itself), \<open>invalid userIP: |%s|\<close>
  with the client address, and \<open>%v\<close> with the error of the signer.
\<close>

datatype logline =
    InvalidProxyCredentials
  | UnparsableKey string
  | Request string
  | ParamValidationFailure string
  | InvalidUserIP string
  | SignError error

text \<open>
  The handler's effects, in program order: what it reads of the request, the calls to its
  collaborators (with the arguments, and for the fingerprint the result), the log lines and
  what it sends to the client (\<open>http.Error\<close> with message and status, or \<open>w.Write\<close>).
\<close>

datatype event =
    EvPostFormValue string
  | EvHeaderGet string
  | EvParseAuthorizedKey string
  | EvFingerprintLegacyMD5 pubkey string
  | EvFingerprintSHA256 pubkey string
  | EvLog logline
  | EvValidateHTTPParams httpParams
  | EvCheckPubKeyAge string
  | EvSignPubKey string certConfig
  | EvHttpError string nat
  | EvWrite string

subsection \<open>validateHTTPParams\<close>

text \<open>The result is the error (\<open>None\<close> for \<open>nil\<close>) and the lines the function logs itself.\<close>

definition validateHTTPParams :: "'db env \<Rightarrow> httpParams \<Rightarrow> config \<Rightarrow> error option \<times> logline list" where
  "validateHTTPParams e p conf =
    (if ForceCmd conf \<and> cmd p = [] then (Some ''cmd missing from request'', [])
     else if bastionIP p = [] \<or> \<not> validIP e (bastionIP p) then (Some ''bastionIP is invalid'', [])
     else if bastionUser p = [] then (Some (UserHeader conf @ '' missing from request''), [])
     else if length (bastionUser p) > 32 \<or> \<not> userRegex conf (bastionUser p)
       then (Some ''username is invalid'', [])
     else if key p = [] then (Some ''key missing from request'', [])
     else if remoteUser p = [] then (Some ''remoteUser missing from request'', [])
     else if RequireClientIP conf \<and> \<not> validIP e (userIP p)
       then (Some ''invalid userIP'', [InvalidUserIP (userIP p)])
     else (None, []))"

subsection \<open>webHandler\<close>

text \<open>The key-id format of the handler:
  \<open>user[%s] from[%s] command[%s] sshKey[%s] valid to[%s]\<close>.\<close>

definition keyID_format :: "string \<Rightarrow> string \<Rightarrow> string \<Rightarrow> string \<Rightarrow> string \<Rightarrow> string" where
  "keyID_format u f c k v =
     ''user['' @ u @ ''] from['' @ f @ ''] command['' @ c @ ''] sshKey['' @ k @ ''] valid to['' @ v @ '']''"

text \<open>The form parameters loaded into the struct, and the reads that load them.\<close>

definition load_params :: "config \<Rightarrow> request \<Rightarrow> httpParams" where
  "load_params conf r =
     \<lparr> bastionIP = PostFormValue r ''bastionIP'',
       bastionUser = HeaderGet r (UserHeader conf),
       cmd = PostFormValue r ''cmd'',
       key = PostFormValue r ''key'',
       remoteUser = PostFormValue r ''remoteUser'',
       userIP = PostFormValue r ''userIP'' \<rparr>"

definition load_events :: "config \<Rightarrow> event list" where
  "load_events conf =
     [EvPostFormValue ''bastionIP'', EvHeaderGet (UserHeader conf), EvPostFormValue ''cmd'',
      EvPostFormValue ''key'', EvPostFormValue ''remoteUser'', EvPostFormValue ''userIP'']"

text \<open>
  \<open>webHandler e conf r t1 t2 db\<close>: \<open>t1\<close> and \<open>t2\<close> are the values of the two calls of
  \<open>time.Now()\<close>, \<open>db\<close> is the key-age store before the request. The result is the list of
  effects and the store after the request.
\<close>

definition webHandler :: "'db env \<Rightarrow> config \<Rightarrow> request \<Rightarrow> time \<Rightarrow> time \<Rightarrow> 'db \<Rightarrow> event list \<times> 'db" where
  "webHandler e conf r t1 t2 db =
    (case BasicAuth r of
       None \<Rightarrow> ([EvHttpError ''Authorization Failure'' StatusUnauthorized], db)
     | Some (user, pass) \<Rightarrow>
        (if user \<noteq> ProxyUser conf \<or> pass \<noteq> ProxyPass conf
         then ([EvLog InvalidProxyCredentials, EvHttpError ''Unauthorized'' StatusUnauthorized], db)
         else
          (let p = load_params conf r;
               va = t1;
               vb = t2 + dur conf;
               tr0 = load_events conf @ [EvParseAuthorizedKey (key p)]
           in (case ParseAuthorizedKey e (key p) of
               None \<Rightarrow>
                 (tr0 @ [EvLog (UnparsableKey (key p)),
                         EvHttpError ''Unable to parse authorized key'' StatusBadRequest], db)
             | Some pk \<Rightarrow>
                 (let fp = FingerprintLegacyMD5 e pk;
                      kid = keyID_format (bastionUser p) (userIP p) (cmd p) fp (FormatRFC3339 e vb);
                      tr1 = tr0 @ [EvFingerprintLegacyMD5 pk fp, EvLog (Request kid),
                                   EvValidateHTTPParams p]
                  in (case validateHTTPParams e p conf of
                      (Some err, logs) \<Rightarrow>
                        (let errMsg = ''Param validation failure: '' @ err
                         in (tr1 @ map EvLog logs @
                              [EvLog (ParamValidationFailure errMsg),
                               EvHttpError errMsg StatusBadRequest], db))
                    | (None, logs) \<Rightarrow>
                        (let tr2 = tr1 @ map EvLog logs @ [EvCheckPubKeyAge fp]
                         in (case checkPubKeyAge e conf fp db of
                             ((expired, err), db') \<Rightarrow>
                               (if expired
                                then (tr2 @ [EvHttpError
                                       ''Submitted pubkey is too old. Please generate new key.''
                                       StatusUnprocessableEntity], db')
                                else
                                 (let cc = \<lparr> certType = UserCert,
                                             command = cmd p,
                                             extensions = exts conf,
                                             keyID = kid,
                                             principals = [remoteUser p],
                                             srcAddr = bastionIP p,
                                             validAfter = va,
                                             validBefore = vb \<rparr>;
                                      tr3 = tr2 @ [EvSignPubKey (key p) cc]
                                  in (case signPubKey e (caSigner conf) (key p) cc of
                                      Inl err' \<Rightarrow>
                                        (tr3 @ [EvLog (SignError err'),
                                                EvHttpError ''Server error'' StatusInternalServerError], db')
                                    | Inr authorizedKey \<Rightarrow>
                                        (tr3 @ [EvWrite authorizedKey], db'))))))))))))"


subsection \<open>Reading a list of effects\<close>

text \<open>Key parsing and fingerprint computation (the Fingerprinter of the specification).\<close>

fun is_fingerprinter :: "event \<Rightarrow> bool" where
  "is_fingerprinter (EvParseAuthorizedKey k) = True"
| "is_fingerprinter (EvFingerprintLegacyMD5 pk fp) = True"
| "is_fingerprinter (EvFingerprintSHA256 pk fp) = True"
| "is_fingerprinter ev = False"

fun is_legacy_digest :: "event \<Rightarrow> bool" where
  "is_legacy_digest (EvFingerprintLegacyMD5 pk fp) = True"
| "is_legacy_digest ev = False"

fun is_validation :: "event \<Rightarrow> bool" where
  "is_validation (EvValidateHTTPParams p) = True"
| "is_validation ev = False"

fun is_replay_check :: "event \<Rightarrow> bool" where
  "is_replay_check (EvCheckPubKeyAge fp) = True"
| "is_replay_check ev = False"

fun is_signer :: "event \<Rightarrow> bool" where
  "is_signer (EvSignPubKey k cc) = True"
| "is_signer ev = False"

fun is_write :: "event \<Rightarrow> bool" where
  "is_write (EvWrite b) = True"
| "is_write ev = False"

fun is_extraction :: "event \<Rightarrow> bool" where
  "is_extraction (EvPostFormValue n) = True"
| "is_extraction (EvHeaderGet n) = True"
| "is_extraction ev = False"

fun is_request_line :: "event \<Rightarrow> bool" where
  "is_request_line (EvLog (Request kid)) = True"
| "is_request_line ev = False"

fun is_log :: "event \<Rightarrow> bool" where
  "is_log (EvLog l) = True"
| "is_log ev = False"

text \<open>Every stage of the handler after the authentication of the proxy.\<close>

definition is_pipeline_stage :: "event \<Rightarrow> bool" where
  "is_pipeline_stage ev \<longleftrightarrow>
     is_extraction ev \<or> is_fingerprinter ev \<or> is_validation ev \<or> is_replay_check ev \<or>
     is_signer ev \<or> is_write ev"

text \<open>The certificate options handed to the signer.\<close>

fun signed_configs :: "event list \<Rightarrow> certConfig list" where
  "signed_configs [] = []"
| "signed_configs (EvSignPubKey k cc # evs) = cc # signed_configs evs"
| "signed_configs (ev # evs) = signed_configs evs"

text \<open>The proxy's credentials are present and are the configured ones.\<close>

definition auth_ok :: "config \<Rightarrow> request \<Rightarrow> bool" where
  "auth_ok conf r \<longleftrightarrow> BasicAuth r = Some (ProxyUser conf, ProxyPass conf)"

subsection \<open>The checks of the validator, as the specification lists them\<close>

text \<open>
  Each check with the reason reported when it fails, in the order (a) to (f) of the
  specification. The reasons are the ones of the source; check (c) reports one of two.
\<close>

definition policy_checks :: "'db env \<Rightarrow> config \<Rightarrow> httpParams \<Rightarrow> (bool \<times> error) list" where
  "policy_checks e conf p =
     [(\<not> (ForceCmd conf \<and> cmd p = []), ''cmd missing from request''),
      (bastionIP p \<noteq> [] \<and> validIP e (bastionIP p), ''bastionIP is invalid''),
      (bastionUser p \<noteq> [] \<and> length (bastionUser p) \<le> 32 \<and> userRegex conf (bastionUser p),
         if bastionUser p = [] then UserHeader conf @ '' missing from request''
         else ''username is invalid''),
      (key p \<noteq> [], ''key missing from request''),
      (remoteUser p \<noteq> [], ''remoteUser missing from request''),
      (\<not> (RequireClientIP conf \<and> \<not> validIP e (userIP p)), ''invalid userIP'')]"

fun first_failure :: "(bool \<times> error) list \<Rightarrow> error option" where
  "first_failure [] = None"
| "first_failure ((ok, reason) # cs) = (if ok then first_failure cs else Some reason)"

text \<open>A request that misses a mandatory field, in the words of the specification.\<close>

definition missing_mandatory :: "config \<Rightarrow> httpParams \<Rightarrow> bool" where
  "missing_mandatory conf p \<longleftrightarrow>
     (ForceCmd conf \<and> cmd p = []) \<or> bastionIP p = [] \<or> bastionUser p = [] \<or> key p = [] \<or>
     remoteUser p = [] \<or> (RequireClientIP conf \<and> userIP p = [])"

subsection \<open>The key-age store\<close>

text \<open>Modelled from the spec: \<open>checkPubKeyAge\<close> is in another file of the package. The
  specification's Replay Guard keeps the time at which each fingerprint was first seen: a
  fingerprint seen for the first time is recorded with the current time and is fresh; for
  one seen before, \<open>age = now - first_seen\<close>, and the key is expired if
  \<open>age > maxAge\<close>. The first component of the result is \<open>expired\<close>; the specification names
  no error.\<close>

definition checkPubKeyAge_spec ::
  "duration \<Rightarrow> time \<Rightarrow> string \<Rightarrow> (string \<rightharpoonup> time) \<Rightarrow> (bool \<times> error option) \<times> (string \<rightharpoonup> time)" where
  "checkPubKeyAge_spec maxAge now fp db =
     (case db fp of
        None \<Rightarrow> ((False, None), db(fp \<mapsto> now))
      | Some first_seen \<Rightarrow> ((now - first_seen > maxAge, None), db))"

subsection \<open>A sample deployment\<close>

text \<open>
  Concrete collaborators, configuration and requests on which the handler is evaluated. The
  request \<open>sample_request\<close> is the example of the specification; the maximal key age is one
  hour, the lifetime of a certificate two minutes (in nanoseconds).
\<close>

definition sample_conf :: config where
  "sample_conf =
     \<lparr> ProxyUser = ''proxy'', ProxyPass = ''secret'', UserHeader = ''X-User'',
       ForceCmd = False, RequireClientIP = True,
       userRegex = (\<lambda>u. u = ''alice'' \<or> u = ''bob''),
       dur = 120000000000, exts = [(''permit-pty'', [])], caSigner = ''ca'' \<rparr>"

definition sample_env :: "time \<Rightarrow> (string \<rightharpoonup> time) env" where
  "sample_env now =
     \<lparr> ParseAuthorizedKey = (\<lambda>k. if k = [] then None else Some k),
       FingerprintLegacyMD5 = (\<lambda>pk. ''MD5:'' @ pk),
       FingerprintSHA256 = (\<lambda>pk. ''SHA256:'' @ pk),
       validIP = (\<lambda>a. a = ''10.0.0.5'' \<or> a = ''203.0.113.9''),
       FormatRFC3339 = (\<lambda>t. if t = 120000000000 then ''1970-01-01T00:02:00Z'' else ''later''),
       checkPubKeyAge = (\<lambda>conf. checkPubKeyAge_spec 3600000000000 now),
       signPubKey = (\<lambda>ca k cc. Inr (''cert '' @ k)) \<rparr>"

definition sample_form :: "string \<Rightarrow> string" where
  "sample_form n =
     (if n = ''bastionIP'' then ''10.0.0.5''
      else if n = ''key'' then ''ssh-ed25519 AAAA''
      else if n = ''remoteUser'' then ''deploy''
      else if n = ''userIP'' then ''203.0.113.9''
      else [])"

definition sample_request :: request where
  "sample_request =
     \<lparr> BasicAuth = Some (''proxy'', ''secret''),
       PostFormValue = sample_form,
       HeaderGet = (\<lambda>h. if h = ''X-User'' then ''alice'' else []) \<rparr>"

text \<open>The certificate options and the effects of the handler on \<open>sample_request\<close>, with
  both clock readings 0 and an empty key-age store.\<close>

definition sample_keyID :: string where
  "sample_keyID =
     ''user[alice] from[203.0.113.9] command[] sshKey[MD5:ssh-ed25519 AAAA] valid to[1970-01-01T00:02:00Z]''"

definition sample_cert :: certConfig where
  "sample_cert =
     \<lparr> certType = 1, command = [], extensions = [(''permit-pty'', [])],
       keyID = sample_keyID, principals = [''deploy''], srcAddr = ''10.0.0.5'',
       validAfter = 0, validBefore = 120000000000 \<rparr>"

definition sample_prefix :: "string \<Rightarrow> event list" where
  "sample_prefix k =
     [EvPostFormValue ''bastionIP'', EvHeaderGet ''X-User'', EvPostFormValue ''cmd'',
      EvPostFormValue ''key'', EvPostFormValue ''remoteUser'', EvPostFormValue ''userIP'',
      EvParseAuthorizedKey k]"

text \<open>The stages after the request line.\<close>

definition is_later_stage :: "event \<Rightarrow> bool" where
  "is_later_stage ev \<longleftrightarrow>
     is_validation ev \<or> is_replay_check ev \<or> is_signer ev \<or> is_write ev"

text \<open>The effects of a request that passes the authentication and whose key parses, up to
  and including the call of the validation.\<close>

definition validated_prefix :: "'db env \<Rightarrow> config \<Rightarrow> request \<Rightarrow> time \<Rightarrow> pubkey \<Rightarrow> event list" where
  "validated_prefix e conf r t2 pk =
     load_events conf @
     [EvParseAuthorizedKey (PostFormValue r ''key''),
      EvFingerprintLegacyMD5 pk (FingerprintLegacyMD5 e pk),
      EvLog (Request (keyID_format (HeaderGet r (UserHeader conf)) (PostFormValue r ''userIP'')
         (PostFormValue r ''cmd'') (FingerprintLegacyMD5 e pk) (FormatRFC3339 e (t2 + dur conf)))),
      EvValidateHTTPParams (load_params conf r)]"

lemmas sample_defs =
  sample_conf_def sample_env_def sample_form_def sample_request_def load_params_def
  load_events_def keyID_format_def validateHTTPParams_def checkPubKeyAge_spec_def
  StatusBadRequest_def StatusUnauthorized_def StatusUnprocessableEntity_def
  StatusInternalServerError_def UserCert_def

section \<open>Properties\<close>

subsection \<open>The handler on the sample request\<close>

lemma sample_run:
  "fst (webHandler (sample_env 0) sample_conf sample_request 0 0 Map.empty) =
     sample_prefix ''ssh-ed25519 AAAA'' @
     [EvFingerprintLegacyMD5 ''ssh-ed25519 AAAA'' ''MD5:ssh-ed25519 AAAA'',
      EvLog (Request sample_keyID),
      EvValidateHTTPParams (load_params sample_conf sample_request),
      EvCheckPubKeyAge ''MD5:ssh-ed25519 AAAA'',
      EvSignPubKey ''ssh-ed25519 AAAA'' sample_cert,
      EvWrite ''cert ssh-ed25519 AAAA'']"
  by (simp add: webHandler_def sample_defs sample_cert_def sample_keyID_def sample_prefix_def
      Let_def)

subsection \<open>Parameter validation\<close>

text \<open>
  C6. \<open>validateHTTPParams\<close> returns the reason of the first failing check of the list (a)
  to (f), and no error exactly when every check passes: (a) with the forced-command policy
  the command is not empty, (b) the bastion address is present and a valid IP, (c) the
  bastion user is present, at most 32 bytes long and matches the configured pattern, (d) the
  key is not empty, (e) the remote principal is present, (f) with the client-IP policy the
  client address is a valid IP. With the forced-command policy and an empty command the
  reason is \<open>cmd missing from request\<close>. The function receives the parameters by value and
  returns nothing but the error: the request is the same before and after.
\<close>

theorem validateHTTPParams_first_failing_check:
  "fst (validateHTTPParams e p conf) = first_failure (policy_checks e conf p) \<and>
   (fst (validateHTTPParams e p conf) = None) = list_all fst (policy_checks e conf p) \<and>
   (ForceCmd conf \<and> cmd p = [] \<longrightarrow>
      fst (validateHTTPParams e p conf) = Some ''cmd missing from request'')"
  by (simp add: validateHTTPParams_def policy_checks_def)

theorem validateHTTPParams_first_failing_check_witness:
  "fst (validateHTTPParams (sample_env 0) (load_params sample_conf sample_request)
         (sample_conf\<lparr>ForceCmd := True\<rparr>)) = Some ''cmd missing from request'' \<and>
   first_failure (policy_checks (sample_env 0) (sample_conf\<lparr>ForceCmd := True\<rparr>)
         (load_params sample_conf sample_request)) = Some ''cmd missing from request'' \<and>
   list_all fst (policy_checks (sample_env 0) sample_conf
         (load_params sample_conf sample_request))"
  using validateHTTPParams_first_failing_check
    [of "sample_env 0" "load_params sample_conf sample_request" "sample_conf\<lparr>ForceCmd := True\<rparr>"]
    validateHTTPParams_first_failing_check
    [of "sample_env 0" "load_params sample_conf sample_request" sample_conf]
  by (simp add: sample_defs policy_checks_def)

subsection \<open>Authentication of the proxy\<close>

text \<open>
  C10. When the basic-auth credentials are absent, or are not exactly the configured proxy
  user and password, the handler answers with status 401 (Unauthorized) and does nothing
  else: it reads no parameter, parses and fingerprints no key, validates nothing, does not
  consult the key-age store (which is unchanged) and signs nothing.
\<close>

theorem unauthorized_request_stops:
  assumes "\<not> auth_ok conf r"
  shows "webHandler e conf r t1 t2 db =
           (if BasicAuth r = None
            then [EvHttpError ''Authorization Failure'' StatusUnauthorized]
            else [EvLog InvalidProxyCredentials, EvHttpError ''Unauthorized'' StatusUnauthorized],
            db) \<and>
         filter is_pipeline_stage (fst (webHandler e conf r t1 t2 db)) = []"
  using assms
  by (auto simp: webHandler_def auth_ok_def is_pipeline_stage_def split: option.splits)

theorem unauthorized_request_stops_witness:
  "\<not> auth_ok sample_conf (sample_request\<lparr>BasicAuth := Some (''proxy'', ''guess'')\<rparr>) \<and>
   webHandler (sample_env 0) sample_conf
       (sample_request\<lparr>BasicAuth := Some (''proxy'', ''guess'')\<rparr>) 0 0 Map.empty =
     ([EvLog InvalidProxyCredentials, EvHttpError ''Unauthorized'' 401], Map.empty)"
proof -
  have h: "\<not> auth_ok sample_conf (sample_request\<lparr>BasicAuth := Some (''proxy'', ''guess'')\<rparr>)"
    by (simp add: auth_ok_def sample_conf_def sample_request_def)
  from unauthorized_request_stops [OF h, of "sample_env 0" 0 0 Map.empty] h
  show ?thesis by (simp add: StatusUnauthorized_def)
qed

subsection \<open>The certificate options\<close>

text \<open>The options handed to the signer, for a request that reaches the signer.\<close>

lemma signed_options:
  assumes "EvSignPubKey k cc \<in> set (fst (webHandler e conf r t1 t2 db))"
  shows "\<exists>pk. ParseAuthorizedKey e (PostFormValue r ''key'') = Some pk \<and>
           k = PostFormValue r ''key'' \<and>
           cc = \<lparr> certType = UserCert, command = PostFormValue r ''cmd'',
                  extensions = exts conf,
                  keyID = keyID_format (HeaderGet r (UserHeader conf)) (PostFormValue r ''userIP'')
                            (PostFormValue r ''cmd'') (FingerprintLegacyMD5 e pk)
                            (FormatRFC3339 e (t2 + dur conf)),
                  principals = [PostFormValue r ''remoteUser''],
                  srcAddr = PostFormValue r ''bastionIP'',
                  validAfter = t1, validBefore = t2 + dur conf \<rparr>"
  using assms
  by (auto simp: webHandler_def load_params_def load_events_def Let_def
      split: option.splits prod.splits sum.splits if_splits)

text \<open>
  C7. For every request that reaches the construction of the certificate options, the
  principal list is exactly the one requested remote principal and the source-address
  restriction is the bastion's address of the request, whatever the client's address is.
  For the request with bastionIP 10.0.0.5 and remoteUser deploy the principals are
  \<open>[deploy]\<close> and the source restriction is 10.0.0.5.
\<close>

theorem descriptor_principal_and_source:
  assumes "EvSignPubKey k cc \<in> set (fst (webHandler e conf r t1 t2 db))"
  shows "principals cc = [PostFormValue r ''remoteUser''] \<and>
         srcAddr cc = PostFormValue r ''bastionIP''"
  using signed_options [OF assms] by auto

theorem descriptor_principal_and_source_witness:
  "EvSignPubKey ''ssh-ed25519 AAAA'' sample_cert \<in>
     set (fst (webHandler (sample_env 0) sample_conf sample_request 0 0 Map.empty)) \<and>
   principals sample_cert = [''deploy''] \<and> srcAddr sample_cert = ''10.0.0.5''"
proof -
  have h: "EvSignPubKey ''ssh-ed25519 AAAA'' sample_cert \<in>
     set (fst (webHandler (sample_env 0) sample_conf sample_request 0 0 Map.empty))"
    by (simp add: sample_run)
  from descriptor_principal_and_source [OF h] h
  show ?thesis by (simp add: sample_request_def sample_form_def)
qed



text \<open>
  C8 as stated fails: nothing in the handler makes valid-to greater than valid-from. With a
  configured lifetime of 0 and both clock readings equal, the sample request is signed with
  valid-to equal to valid-from.
\<close>

theorem validity_window_counterexample:
  "map validAfter (signed_configs
     (fst (webHandler (sample_env 0) (sample_conf\<lparr>dur := 0\<rparr>) sample_request 0 0 Map.empty))) =
     [0] \<and>
   map validBefore (signed_configs
     (fst (webHandler (sample_env 0) (sample_conf\<lparr>dur := 0\<rparr>) sample_request 0 0 Map.empty))) =
     [0] \<and>
   filter is_write
     (fst (webHandler (sample_env 0) (sample_conf\<lparr>dur := 0\<rparr>) sample_request 0 0 Map.empty)) =
     [EvWrite ''cert ssh-ed25519 AAAA'']"
  by (simp add: webHandler_def sample_defs Let_def)

text \<open>
  C8, amended. For every certificate handed to the signer, valid-from is the first clock
  reading and valid-to is the second clock reading plus the configured lifetime
  \<open>dur conf\<close>: valid-to is valid-from plus the lifetime plus the time between the two
  readings. Neither depends on the request. When the configured lifetime is positive and the
  clock does not go back between the two readings, valid-to is strictly greater than
  valid-from.
\<close>

theorem validity_window:
  assumes "EvSignPubKey k cc \<in> set (fst (webHandler e conf r t1 t2 db))"
  shows "validAfter cc = t1 \<and> validBefore cc = t2 + dur conf \<and>
         validBefore cc = validAfter cc + dur conf + (t2 - t1) \<and>
         (t1 \<le> t2 \<and> 0 < dur conf \<longrightarrow> validAfter cc < validBefore cc)"
  using signed_options [OF assms] by auto

theorem validity_window_witness:
  "EvSignPubKey ''ssh-ed25519 AAAA'' sample_cert \<in>
     set (fst (webHandler (sample_env 0) sample_conf sample_request 0 0 Map.empty)) \<and>
   validAfter sample_cert = 0 \<and> validBefore sample_cert = 0 + dur sample_conf \<and>
   (0::int) < dur sample_conf \<and> validAfter sample_cert < validBefore sample_cert"
proof -
  have h: "EvSignPubKey ''ssh-ed25519 AAAA'' sample_cert \<in>
     set (fst (webHandler (sample_env 0) sample_conf sample_request 0 0 Map.empty))"
    by (simp add: sample_run)
  have d: "(0::int) < dur sample_conf"
    by (simp add: sample_conf_def)
  from validity_window [OF h] h d
  show ?thesis by simp
qed

text \<open>
  C9 as stated fails: the address in the key-id is not the address the certificate is
  restricted to. On the sample request the key-id says \<open>from[203.0.113.9]\<close>, the client's
  address, and the source restriction is 10.0.0.5, the bastion's.
\<close>

theorem keyID_source_counterexample:
  "signed_configs (fst (webHandler (sample_env 0) sample_conf sample_request 0 0 Map.empty)) =
     [sample_cert] \<and>
   srcAddr sample_cert = ''10.0.0.5'' \<and>
   keyID sample_cert =
     keyID_format ''alice'' ''203.0.113.9'' [] ''MD5:ssh-ed25519 AAAA'' ''1970-01-01T00:02:00Z'' \<and>
   keyID sample_cert \<noteq>
     keyID_format ''alice'' (srcAddr sample_cert) [] ''MD5:ssh-ed25519 AAAA''
       ''1970-01-01T00:02:00Z''"
  by (simp add: sample_run sample_prefix_def sample_cert_def sample_keyID_def keyID_format_def)

text \<open>
  C9, amended. The key-id of every certificate handed to the signer is the format
  \<open>user[%s] from[%s] command[%s] sshKey[%s] valid to[%s]\<close> filled with the bastion user, the
  client's address (\<open>userIP\<close>), the command, the fingerprint of the key and the formatted
  valid-to time of the certificate; the certificate's source restriction is the bastion's
  address.
\<close>

theorem keyID_contents:
  assumes "EvSignPubKey k cc \<in> set (fst (webHandler e conf r t1 t2 db))"
    and "ParseAuthorizedKey e (PostFormValue r ''key'') = Some pk"
  shows "keyID cc =
           keyID_format (HeaderGet r (UserHeader conf)) (PostFormValue r ''userIP'')
             (PostFormValue r ''cmd'') (FingerprintLegacyMD5 e pk)
             (FormatRFC3339 e (validBefore cc)) \<and>
         command cc = PostFormValue r ''cmd'' \<and>
         srcAddr cc = PostFormValue r ''bastionIP''"
  using signed_options [OF assms(1)] assms(2) by auto

theorem keyID_contents_witness:
  "EvSignPubKey ''ssh-ed25519 AAAA'' sample_cert \<in>
     set (fst (webHandler (sample_env 0) sample_conf sample_request 0 0 Map.empty)) \<and>
   ParseAuthorizedKey (sample_env 0) (PostFormValue sample_request ''key'') =
     Some ''ssh-ed25519 AAAA'' \<and>
   keyID sample_cert =
     keyID_format ''alice'' ''203.0.113.9'' [] ''MD5:ssh-ed25519 AAAA'' ''1970-01-01T00:02:00Z'' \<and>
   srcAddr sample_cert = ''10.0.0.5''"
proof -
  have h: "EvSignPubKey ''ssh-ed25519 AAAA'' sample_cert \<in>
     set (fst (webHandler (sample_env 0) sample_conf sample_request 0 0 Map.empty))"
    by (simp add: sample_run)
  have p: "ParseAuthorizedKey (sample_env 0) (PostFormValue sample_request ''key'') =
     Some ''ssh-ed25519 AAAA''"
    by (simp add: sample_env_def sample_request_def sample_form_def)
  from keyID_contents [OF h p] h p
  show ?thesis
    by (simp add: sample_env_def sample_request_def sample_form_def sample_conf_def
        sample_cert_def)
qed



subsection \<open>The order of the stages\<close>

lemma invalid_request_run:
  assumes "auth_ok conf r"
    and "ParseAuthorizedKey e (PostFormValue r ''key'') = Some pk"
    and "validateHTTPParams e (load_params conf r) conf = (Some reason, logs)"
  shows "webHandler e conf r t1 t2 db =
           (validated_prefix e conf r t2 pk @ map EvLog logs @
            [EvLog (ParamValidationFailure (''Param validation failure: '' @ reason)),
             EvHttpError (''Param validation failure: '' @ reason) StatusBadRequest], db)"
  using assms
  by (simp add: webHandler_def auth_ok_def validated_prefix_def load_params_def Let_def)

lemma missing_mandatory_fails:
  assumes "missing_mandatory conf p" and "\<not> validIP e []"
  shows "fst (validateHTTPParams e p conf) \<noteq> None"
  using assms
  by (auto simp: missing_mandatory_def validateHTTPParams_def)

text \<open>
  C1 as stated fails. With the forced-command policy on and no command, the sample request
  is rejected by the validation, but its key has been parsed and fingerprinted before; and a
  request without key is rejected by the key parser (here one that rejects the empty key)
  with \<open>Unable to parse authorized key\<close>, before the validation is reached.
\<close>

theorem missing_field_counterexample:
  "missing_mandatory (sample_conf\<lparr>ForceCmd := True\<rparr>)
     (load_params (sample_conf\<lparr>ForceCmd := True\<rparr>) sample_request) \<and>
   filter is_fingerprinter
     (fst (webHandler (sample_env 0) (sample_conf\<lparr>ForceCmd := True\<rparr>) sample_request 0 0
        Map.empty)) =
     [EvParseAuthorizedKey ''ssh-ed25519 AAAA'',
      EvFingerprintLegacyMD5 ''ssh-ed25519 AAAA'' ''MD5:ssh-ed25519 AAAA''] \<and>
   missing_mandatory sample_conf
     (load_params sample_conf (sample_request\<lparr>PostFormValue := sample_form(''key'' := [])\<rparr>)) \<and>
   fst (webHandler (sample_env 0) sample_conf
        (sample_request\<lparr>PostFormValue := sample_form(''key'' := [])\<rparr>) 0 0 Map.empty) =
     sample_prefix [] @
     [EvLog (UnparsableKey []), EvHttpError ''Unable to parse authorized key'' 400]"
  by (simp add: webHandler_def sample_defs missing_mandatory_def sample_prefix_def Let_def)

text \<open>
  C1, amended. For every request that passes the authentication of the proxy, whose key
  parses and that misses a mandatory field (the command under the forced-command policy, the
  bastion address, the bastion user, the key, the remote principal, the client IP when it is
  required; \<open>validIP\<close> rejecting the empty address), the handler fails with
  \<open>Param validation failure\<close> and the reason of the validation, status 400; neither the
  key-age check nor the signer is called, and the key-age store is unchanged. The key has
  been parsed and fingerprinted, once, before the validation.
\<close>

theorem missing_field_rejected:
  assumes "auth_ok conf r"
    and "ParseAuthorizedKey e (PostFormValue r ''key'') = Some pk"
    and "missing_mandatory conf (load_params conf r)"
    and "\<not> validIP e []"
  shows "fst (validateHTTPParams e (load_params conf r) conf) \<noteq> None \<and>
         webHandler e conf r t1 t2 db =
           (validated_prefix e conf r t2 pk @
            map EvLog (snd (validateHTTPParams e (load_params conf r) conf)) @
            [EvLog (ParamValidationFailure (''Param validation failure: '' @
                the (fst (validateHTTPParams e (load_params conf r) conf)))),
             EvHttpError (''Param validation failure: '' @
                the (fst (validateHTTPParams e (load_params conf r) conf))) StatusBadRequest],
            db) \<and>
         filter is_signer (fst (webHandler e conf r t1 t2 db)) = [] \<and>
         filter is_replay_check (fst (webHandler e conf r t1 t2 db)) = [] \<and>
         filter is_fingerprinter (fst (webHandler e conf r t1 t2 db)) =
           [EvParseAuthorizedKey (PostFormValue r ''key''),
            EvFingerprintLegacyMD5 pk (FingerprintLegacyMD5 e pk)]"
proof -
  obtain reason logs where
    v: "validateHTTPParams e (load_params conf r) conf = (Some reason, logs)"
    using missing_mandatory_fails [OF assms(3) assms(4)]
    by (cases "validateHTTPParams e (load_params conf r) conf") auto
  have run: "webHandler e conf r t1 t2 db =
           (validated_prefix e conf r t2 pk @ map EvLog logs @
            [EvLog (ParamValidationFailure (''Param validation failure: '' @ reason)),
             EvHttpError (''Param validation failure: '' @ reason) StatusBadRequest], db)"
    by (rule invalid_request_run [OF assms(1) assms(2) v])
  show ?thesis
    by (simp add: run v validated_prefix_def load_events_def filter_map comp_def)
qed

theorem missing_field_rejected_witness:
  "auth_ok (sample_conf\<lparr>ForceCmd := True\<rparr>) sample_request \<and>
   missing_mandatory (sample_conf\<lparr>ForceCmd := True\<rparr>)
     (load_params (sample_conf\<lparr>ForceCmd := True\<rparr>) sample_request) \<and>
   fst (webHandler (sample_env 0) (sample_conf\<lparr>ForceCmd := True\<rparr>) sample_request 0 0
        Map.empty) =
     sample_prefix ''ssh-ed25519 AAAA'' @
     [EvFingerprintLegacyMD5 ''ssh-ed25519 AAAA'' ''MD5:ssh-ed25519 AAAA'',
      EvLog (Request sample_keyID),
      EvValidateHTTPParams (load_params sample_conf sample_request),
      EvLog (ParamValidationFailure ''Param validation failure: cmd missing from request''),
      EvHttpError ''Param validation failure: cmd missing from request'' 400]"
proof -
  have a: "auth_ok (sample_conf\<lparr>ForceCmd := True\<rparr>) sample_request"
    by (simp add: auth_ok_def sample_conf_def sample_request_def)
  have p: "ParseAuthorizedKey (sample_env 0) (PostFormValue sample_request ''key'') =
     Some ''ssh-ed25519 AAAA''"
    by (simp add: sample_env_def sample_request_def sample_form_def)
  have m: "missing_mandatory (sample_conf\<lparr>ForceCmd := True\<rparr>)
     (load_params (sample_conf\<lparr>ForceCmd := True\<rparr>) sample_request)"
    by (simp add: missing_mandatory_def sample_defs)
  have i: "\<not> validIP (sample_env 0) []"
    by (simp add: sample_env_def)
  from missing_field_rejected [OF a p m i, of 0 0 Map.empty] a m
  show ?thesis
    by (simp add: validated_prefix_def sample_defs sample_prefix_def sample_keyID_def)
qed



subsection \<open>The fingerprint\<close>

lemma fingerprinter_calls:
  assumes "auth_ok conf r"
    and "ParseAuthorizedKey e (PostFormValue r ''key'') = Some pk"
  shows "filter is_fingerprinter (fst (webHandler e conf r t1 t2 db)) =
           [EvParseAuthorizedKey (PostFormValue r ''key''),
            EvFingerprintLegacyMD5 pk (FingerprintLegacyMD5 e pk)]"
  using assms
  by (auto simp: webHandler_def auth_ok_def load_params_def load_events_def Let_def
      filter_map comp_def split: option.splits prod.splits sum.splits)

text \<open>
  C2 as stated fails: the fingerprint is the legacy MD5 one. On the sample request the
  handler calls \<open>ssh.FingerprintLegacyMD5\<close>, and the fingerprint it hands to the key-age check
  is the result of that call, not the SHA256 fingerprint of the key.
\<close>

theorem fingerprint_digest_counterexample:
  "filter is_legacy_digest
     (fst (webHandler (sample_env 0) sample_conf sample_request 0 0 Map.empty)) =
     [EvFingerprintLegacyMD5 ''ssh-ed25519 AAAA'' ''MD5:ssh-ed25519 AAAA''] \<and>
   filter is_replay_check
     (fst (webHandler (sample_env 0) sample_conf sample_request 0 0 Map.empty)) =
     [EvCheckPubKeyAge ''MD5:ssh-ed25519 AAAA''] \<and>
   FingerprintSHA256 (sample_env 0) ''ssh-ed25519 AAAA'' = ''SHA256:ssh-ed25519 AAAA''"
proof -
  have "FingerprintSHA256 (sample_env 0) ''ssh-ed25519 AAAA'' = ''SHA256:ssh-ed25519 AAAA''"
    by (simp add: sample_env_def)
  then show ?thesis
    by (simp add: sample_run sample_prefix_def)
qed

text \<open>
  C2, amended. The fingerprint of a request's key is the result of
  \<open>ssh.FingerprintLegacyMD5\<close> on the parsed key, the legacy MD5 digest. It is deterministic:
  two requests with byte-identical keys, whatever their other fields, the configuration, the
  clock and the key-age store are, have the key parsed and fingerprinted with the same
  result.
\<close>

theorem fingerprint_legacy_deterministic:
  assumes "auth_ok conf r" and "auth_ok conf' r'"
    and "PostFormValue r' ''key'' = PostFormValue r ''key''"
    and "ParseAuthorizedKey e (PostFormValue r ''key'') = Some pk"
  shows "filter is_fingerprinter (fst (webHandler e conf r t1 t2 db)) =
           [EvParseAuthorizedKey (PostFormValue r ''key''),
            EvFingerprintLegacyMD5 pk (FingerprintLegacyMD5 e pk)] \<and>
         filter is_fingerprinter (fst (webHandler e conf' r' t1' t2' db')) =
           filter is_fingerprinter (fst (webHandler e conf r t1 t2 db))"
  using fingerprinter_calls [OF assms(1) assms(4), of t1 t2 db]
    fingerprinter_calls [OF assms(2), of e pk t1' t2' db'] assms(3) assms(4)
  by simp

theorem fingerprint_legacy_deterministic_witness:
  "auth_ok sample_conf sample_request \<and>
   auth_ok (sample_conf\<lparr>ForceCmd := True\<rparr>)
     (sample_request\<lparr>PostFormValue := sample_form(''remoteUser'' := ''root'')\<rparr>) \<and>
   filter is_fingerprinter
     (fst (webHandler (sample_env 0) (sample_conf\<lparr>ForceCmd := True\<rparr>)
        (sample_request\<lparr>PostFormValue := sample_form(''remoteUser'' := ''root'')\<rparr>) 7 9
        (Map.empty(''MD5:ssh-ed25519 AAAA'' \<mapsto> 5)))) =
     [EvParseAuthorizedKey ''ssh-ed25519 AAAA'',
      EvFingerprintLegacyMD5 ''ssh-ed25519 AAAA'' ''MD5:ssh-ed25519 AAAA'']"
proof -
  have a: "auth_ok sample_conf sample_request"
    by (simp add: auth_ok_def sample_conf_def sample_request_def)
  have a': "auth_ok (sample_conf\<lparr>ForceCmd := True\<rparr>)
     (sample_request\<lparr>PostFormValue := sample_form(''remoteUser'' := ''root'')\<rparr>)"
    by (simp add: auth_ok_def sample_conf_def sample_request_def)
  have k: "PostFormValue (sample_request\<lparr>PostFormValue := sample_form(''remoteUser'' := ''root'')\<rparr>)
       ''key'' = PostFormValue sample_request ''key''"
    by (simp add: sample_request_def)
  have p: "ParseAuthorizedKey (sample_env 0) (PostFormValue sample_request ''key'') =
     Some ''ssh-ed25519 AAAA''"
    by (simp add: sample_env_def sample_request_def sample_form_def)
  from fingerprint_legacy_deterministic [OF a a' k p, of 0 0 Map.empty 7 9
      "Map.empty(''MD5:ssh-ed25519 AAAA'' \<mapsto> 5)"] a a'
  show ?thesis
    by (simp add: sample_env_def sample_request_def sample_form_def)
qed

subsection \<open>The log\<close>

lemma filter_takeWhile_empty:
  assumes "filter P xs = []"
  shows "filter P (takeWhile Q xs) = []"
  using assms
  by (auto simp: filter_empty_conv dest: set_takeWhileD)

lemma validation_logs_no_request_line:
  assumes "validateHTTPParams e p conf = (err, logs)"
  shows "filter (\<lambda>l. is_request_line (EvLog l)) logs = []"
  using assms
  by (auto simp: validateHTTPParams_def split: if_splits)

lemma request_line_run:
  assumes "auth_ok conf r"
    and "ParseAuthorizedKey e (PostFormValue r ''key'') = Some pk"
  shows "\<exists>rest. fst (webHandler e conf r t1 t2 db) = validated_prefix e conf r t2 pk @ rest \<and>
           filter is_request_line rest = []"
  using assms
  by (auto simp: webHandler_def auth_ok_def validated_prefix_def load_params_def Let_def
      filter_map comp_def split: option.splits prod.splits sum.splits
      dest: validation_logs_no_request_line)

lemma no_request_line_unauthorized:
  assumes "\<not> auth_ok conf r"
  shows "filter is_request_line (fst (webHandler e conf r t1 t2 db)) = []"
  using assms
  by (auto simp: webHandler_def auth_ok_def split: option.splits)

lemma no_request_line_unparsable:
  assumes "ParseAuthorizedKey e (PostFormValue r ''key'') = None"
  shows "filter is_request_line (fst (webHandler e conf r t1 t2 db)) = []"
  using assms
  by (auto simp: webHandler_def load_params_def load_events_def Let_def split: option.splits)

text \<open>
  C3 as stated fails. The only log line with the key-id is the request line, written before
  the validation. With the forced-command policy on and no command, the sample request fails
  the validation and nothing is signed, yet its key-id is logged; and where the sample
  request is signed, the line comes before the call of the signer and nothing is logged after
  it.
\<close>

theorem audit_line_counterexample:
  "filter is_request_line
     (fst (webHandler (sample_env 0) (sample_conf\<lparr>ForceCmd := True\<rparr>) sample_request 0 0
        Map.empty)) = [EvLog (Request sample_keyID)] \<and>
   filter is_signer
     (fst (webHandler (sample_env 0) (sample_conf\<lparr>ForceCmd := True\<rparr>) sample_request 0 0
        Map.empty)) = [] \<and>
   filter is_log (takeWhile (\<lambda>ev. \<not> is_signer ev)
     (fst (webHandler (sample_env 0) sample_conf sample_request 0 0 Map.empty))) =
     [EvLog (Request sample_keyID)] \<and>
   filter is_log (dropWhile (\<lambda>ev. \<not> is_signer ev)
     (fst (webHandler (sample_env 0) sample_conf sample_request 0 0 Map.empty))) = []"
  by (simp add: webHandler_def sample_defs sample_keyID_def Let_def)

text \<open>
  C3, amended. For every request that passes the authentication of the proxy and whose key
  parses, exactly one log line with the key-id is written, the request line, and it is
  written before the validation, the key-age check and the signing, whether they succeed or
  not. For a request that fails the authentication or whose key does not parse, no line
  with the key-id is written.
\<close>

theorem request_line_once_before_validation:
  "filter is_request_line (fst (webHandler e conf r t1 t2 db)) =
     (if auth_ok conf r
      then (case ParseAuthorizedKey e (PostFormValue r ''key'') of
              None \<Rightarrow> []
            | Some pk \<Rightarrow>
                [EvLog (Request (keyID_format (HeaderGet r (UserHeader conf))
                   (PostFormValue r ''userIP'') (PostFormValue r ''cmd'')
                   (FingerprintLegacyMD5 e pk) (FormatRFC3339 e (t2 + dur conf))))])
      else []) \<and>
   filter is_later_stage
     (takeWhile (\<lambda>ev. \<not> is_request_line ev) (fst (webHandler e conf r t1 t2 db))) = []"
proof (cases "auth_ok conf r")
  case False
  have none: "filter is_request_line (fst (webHandler e conf r t1 t2 db)) = []"
    by (rule no_request_line_unauthorized [OF False])
  have "filter is_later_stage (fst (webHandler e conf r t1 t2 db)) = []"
    using False
    by (auto simp: webHandler_def auth_ok_def is_later_stage_def split: option.splits)
  then have "filter is_later_stage
      (takeWhile (\<lambda>ev. \<not> is_request_line ev) (fst (webHandler e conf r t1 t2 db))) = []"
    by (rule filter_takeWhile_empty)
  with none False show ?thesis by simp
next
  case True
  show ?thesis
  proof (cases "ParseAuthorizedKey e (PostFormValue r ''key'')")
    case None
    have none: "filter is_request_line (fst (webHandler e conf r t1 t2 db)) = []"
      by (rule no_request_line_unparsable [OF None])
    have "filter is_later_stage (fst (webHandler e conf r t1 t2 db)) = []"
      using True None
      by (simp add: webHandler_def auth_ok_def load_params_def load_events_def Let_def
          is_later_stage_def)
    then have "filter is_later_stage
        (takeWhile (\<lambda>ev. \<not> is_request_line ev) (fst (webHandler e conf r t1 t2 db))) = []"
      by (rule filter_takeWhile_empty)
    with none True None show ?thesis by simp
  next
    case (Some pk)
    obtain rest where
      run: "fst (webHandler e conf r t1 t2 db) = validated_prefix e conf r t2 pk @ rest"
      and rest: "filter is_request_line rest = []"
      using request_line_run [OF True Some] by blast
    show ?thesis
      using True Some rest
      by (simp add: run validated_prefix_def load_events_def is_later_stage_def)
  qed
qed

theorem request_line_once_before_validation_witness:
  "auth_ok sample_conf sample_request \<and>
   filter is_request_line
     (fst (webHandler (sample_env 0) sample_conf sample_request 0 0 Map.empty)) =
     [EvLog (Request sample_keyID)] \<and>
   filter is_later_stage (takeWhile (\<lambda>ev. \<not> is_request_line ev)
     (fst (webHandler (sample_env 0) sample_conf sample_request 0 0 Map.empty))) = []"
proof -
  have a: "auth_ok sample_conf sample_request"
    by (simp add: auth_ok_def sample_conf_def sample_request_def)
  from request_line_once_before_validation
      [of "sample_env 0" sample_conf sample_request 0 0 Map.empty] a
  show ?thesis
    by (simp add: sample_env_def sample_request_def sample_form_def sample_conf_def
        sample_keyID_def keyID_format_def)
qed



subsection \<open>The key-age check\<close>

lemma valid_params_no_logs:
  assumes "fst (validateHTTPParams e p conf) = None"
  shows "validateHTTPParams e p conf = (None, [])"
  using assms
  by (auto simp: validateHTTPParams_def split: if_splits)

text \<open>Whatever \<open>checkPubKeyAge\<close> is: when it reports the key as expired, the request that
  reached it is answered with status 422 and the signer is not called.\<close>

lemma expired_run:
  assumes "auth_ok conf r"
    and "ParseAuthorizedKey e (PostFormValue r ''key'') = Some pk"
    and "fst (validateHTTPParams e (load_params conf r) conf) = None"
    and "checkPubKeyAge e conf (FingerprintLegacyMD5 e pk) db = ((True, err), db')"
  shows "webHandler e conf r t1 t2 db =
           (validated_prefix e conf r t2 pk @
            [EvCheckPubKeyAge (FingerprintLegacyMD5 e pk),
             EvHttpError ''Submitted pubkey is too old. Please generate new key.''
               StatusUnprocessableEntity], db')"
  using assms(1) assms(2) assms(4) valid_params_no_logs [OF assms(3)]
  by (simp add: webHandler_def auth_ok_def validated_prefix_def load_params_def Let_def)

lemma expired_never_signed:
  assumes "ParseAuthorizedKey e (PostFormValue r ''key'') = Some pk"
    and "checkPubKeyAge e conf (FingerprintLegacyMD5 e pk) db = ((True, err), db')"
  shows "filter is_signer (fst (webHandler e conf r t1 t2 db)) = [] \<and>
         filter is_write (fst (webHandler e conf r t1 t2 db)) = []"
  using assms
  by (auto simp: webHandler_def load_params_def load_events_def Let_def filter_map comp_def
      split: option.splits prod.splits sum.splits)

text \<open>The key-age store of the specification reports a fingerprint as expired when it has
  seen it and its age exceeds the threshold, and leaves the store as it was.\<close>

lemma checkPubKeyAge_spec_expired:
  assumes "db fp = Some first_seen" and "maxAge < now - first_seen"
  shows "checkPubKeyAge_spec maxAge now fp db = ((True, None), db)"
  using assms
  by (simp add: checkPubKeyAge_spec_def)

text \<open>
  C5. For every request whose key fingerprint \<open>checkPubKeyAge\<close> reports as older than the
  configured threshold (whatever \<open>checkPubKeyAge\<close> is, and whatever error it returns beside
  \<open>expired\<close>), the signer is not called and no certificate is written; and the request
  that reaches the key-age check, having passed the authentication of the proxy and the
  validation, is answered with the key-too-old error, status 422, and nothing after it.
\<close>

theorem expired_key_rejected:
  assumes "ParseAuthorizedKey e (PostFormValue r ''key'') = Some pk"
    and "checkPubKeyAge e conf (FingerprintLegacyMD5 e pk) db = ((True, err), db')"
  shows "filter is_signer (fst (webHandler e conf r t1 t2 db)) = [] \<and>
         filter is_write (fst (webHandler e conf r t1 t2 db)) = [] \<and>
         (auth_ok conf r \<and> fst (validateHTTPParams e (load_params conf r) conf) = None \<longrightarrow>
            webHandler e conf r t1 t2 db =
              (validated_prefix e conf r t2 pk @
               [EvCheckPubKeyAge (FingerprintLegacyMD5 e pk),
                EvHttpError ''Submitted pubkey is too old. Please generate new key.''
                  StatusUnprocessableEntity], db'))"
proof -
  have n: "filter is_signer (fst (webHandler e conf r t1 t2 db)) = [] \<and>
      filter is_write (fst (webHandler e conf r t1 t2 db)) = []"
    by (rule expired_never_signed [OF assms(1) assms(2)])
  have x: "webHandler e conf r t1 t2 db =
      (validated_prefix e conf r t2 pk @
       [EvCheckPubKeyAge (FingerprintLegacyMD5 e pk),
        EvHttpError ''Submitted pubkey is too old. Please generate new key.''
          StatusUnprocessableEntity], db')"
    if "auth_ok conf r" and "fst (validateHTTPParams e (load_params conf r) conf) = None"
    by (rule expired_run [OF that(1) assms(1) that(2) assms(2)])
  from n x show ?thesis by blast
qed

text \<open>The witness is the sample request with the key-age store of the specification, in
  which the fingerprint of the key was first seen at time 0, more than the maximal age of
  one hour before the check.\<close>

theorem expired_key_rejected_witness:
  "auth_ok sample_conf sample_request \<and>
   checkPubKeyAge (sample_env 3600000000001) sample_conf ''MD5:ssh-ed25519 AAAA''
       (Map.empty(''MD5:ssh-ed25519 AAAA'' \<mapsto> 0)) =
     ((True, None), Map.empty(''MD5:ssh-ed25519 AAAA'' \<mapsto> 0)) \<and>
   webHandler (sample_env 3600000000001) sample_conf sample_request 0 0
       (Map.empty(''MD5:ssh-ed25519 AAAA'' \<mapsto> 0)) =
     (sample_prefix ''ssh-ed25519 AAAA'' @
      [EvFingerprintLegacyMD5 ''ssh-ed25519 AAAA'' ''MD5:ssh-ed25519 AAAA'',
       EvLog (Request sample_keyID),
       EvValidateHTTPParams (load_params sample_conf sample_request),
       EvCheckPubKeyAge ''MD5:ssh-ed25519 AAAA'',
       EvHttpError ''Submitted pubkey is too old. Please generate new key.'' 422],
      Map.empty(''MD5:ssh-ed25519 AAAA'' \<mapsto> 0)) \<and>
   filter is_signer
     (fst (webHandler (sample_env 3600000000001) sample_conf sample_request 0 0
        (Map.empty(''MD5:ssh-ed25519 AAAA'' \<mapsto> 0)))) = []"
proof -
  have a: "auth_ok sample_conf sample_request"
    by (simp add: auth_ok_def sample_conf_def sample_request_def)
  have p: "ParseAuthorizedKey (sample_env 3600000000001) (PostFormValue sample_request ''key'') =
      Some ''ssh-ed25519 AAAA''"
    by (simp add: sample_env_def sample_request_def sample_form_def)
  have s: "(Map.empty(''MD5:ssh-ed25519 AAAA'' \<mapsto> (0::int))) ''MD5:ssh-ed25519 AAAA'' = Some 0"
    by simp
  have g: "(3600000000000::int) < 3600000000001 - 0"
    by simp
  have c0: "checkPubKeyAge (sample_env 3600000000001) sample_conf ''MD5:ssh-ed25519 AAAA''
       (Map.empty(''MD5:ssh-ed25519 AAAA'' \<mapsto> 0)) =
     ((True, None), Map.empty(''MD5:ssh-ed25519 AAAA'' \<mapsto> 0))"
    using checkPubKeyAge_spec_expired
      [where db = "Map.empty(''MD5:ssh-ed25519 AAAA'' \<mapsto> 0)" and fp = "''MD5:ssh-ed25519 AAAA''",
       OF s g]
    by (simp add: sample_env_def)
  have f: "FingerprintLegacyMD5 (sample_env 3600000000001) ''ssh-ed25519 AAAA'' =
      ''MD5:ssh-ed25519 AAAA''"
    by (simp add: sample_env_def)
  have c: "checkPubKeyAge (sample_env 3600000000001) sample_conf
       (FingerprintLegacyMD5 (sample_env 3600000000001) ''ssh-ed25519 AAAA'')
       (Map.empty(''MD5:ssh-ed25519 AAAA'' \<mapsto> 0)) =
     ((True, None), Map.empty(''MD5:ssh-ed25519 AAAA'' \<mapsto> 0))"
    unfolding f by (rule c0)
  have v: "fst (validateHTTPParams (sample_env 3600000000001)
      (load_params sample_conf sample_request) sample_conf) = None"
    by (simp add: sample_defs)
  have run: "webHandler (sample_env 3600000000001) sample_conf sample_request 0 0
       (Map.empty(''MD5:ssh-ed25519 AAAA'' \<mapsto> 0)) =
     (validated_prefix (sample_env 3600000000001) sample_conf sample_request 0
        ''ssh-ed25519 AAAA'' @
      [EvCheckPubKeyAge (FingerprintLegacyMD5 (sample_env 3600000000001) ''ssh-ed25519 AAAA''),
       EvHttpError ''Submitted pubkey is too old. Please generate new key.''
         StatusUnprocessableEntity],
      Map.empty(''MD5:ssh-ed25519 AAAA'' \<mapsto> 0))"
    and nosign: "filter is_signer
     (fst (webHandler (sample_env 3600000000001) sample_conf sample_request 0 0
        (Map.empty(''MD5:ssh-ed25519 AAAA'' \<mapsto> 0)))) = []"
    using expired_key_rejected [OF p c, where ?t1.0 = 0 and ?t2.0 = 0] a v by blast+
  have pre: "validated_prefix (sample_env 3600000000001) sample_conf sample_request 0
        ''ssh-ed25519 AAAA'' =
      sample_prefix ''ssh-ed25519 AAAA'' @
      [EvFingerprintLegacyMD5 ''ssh-ed25519 AAAA'' ''MD5:ssh-ed25519 AAAA'',
       EvLog (Request sample_keyID),
       EvValidateHTTPParams (load_params sample_conf sample_request)]"
    by (simp add: validated_prefix_def sample_prefix_def sample_keyID_def sample_conf_def
        sample_env_def sample_request_def sample_form_def load_params_def load_events_def
        keyID_format_def)
  show ?thesis
    using a c0 nosign
    by (simp add: run pre f StatusUnprocessableEntity_def)
qed

text \<open>
  C4 does not hold of the handler. When \<open>checkPubKeyAge\<close> returns an error (with
  \<open>expired\<close> false), the handler neither logs nor returns it: the sample request is answered
  exactly as without the error, the certificate is signed and written, and the only log
  line is the request line. And when the key is expired, the rejection is sent to the client
  but not logged.
\<close>

theorem checkPubKeyAge_error_ignored:
  "fst (webHandler
        ((sample_env 0)\<lparr>checkPubKeyAge :=
           \<lambda>conf fp db. ((False, Some ''key store unavailable''), db)\<rparr>)
        sample_conf sample_request 0 0 Map.empty) =
     sample_prefix ''ssh-ed25519 AAAA'' @
     [EvFingerprintLegacyMD5 ''ssh-ed25519 AAAA'' ''MD5:ssh-ed25519 AAAA'',
      EvLog (Request sample_keyID),
      EvValidateHTTPParams (load_params sample_conf sample_request),
      EvCheckPubKeyAge ''MD5:ssh-ed25519 AAAA'',
      EvSignPubKey ''ssh-ed25519 AAAA'' sample_cert,
      EvWrite ''cert ssh-ed25519 AAAA''] \<and>
   filter is_log
     (fst (webHandler (sample_env 3600000000001) sample_conf sample_request 0 0
        (Map.empty(''MD5:ssh-ed25519 AAAA'' \<mapsto> 0)))) =
     [EvLog (Request sample_keyID)]"
  by (simp add: webHandler_def sample_defs sample_cert_def sample_keyID_def sample_prefix_def
      Let_def)

theorem checkPubKeyAge_error_ignored_witness:
  "signed_configs
     (fst (webHandler
        ((sample_env 0)\<lparr>checkPubKeyAge :=
           \<lambda>conf fp db. ((False, Some ''key store unavailable''), db)\<rparr>)
        sample_conf sample_request 0 0 Map.empty)) = [sample_cert] \<and>
   filter is_log
     (fst (webHandler
        ((sample_env 0)\<lparr>checkPubKeyAge :=
           \<lambda>conf fp db. ((False, Some ''key store unavailable''), db)\<rparr>)
        sample_conf sample_request 0 0 Map.empty)) = [EvLog (Request sample_keyID)]"
proof -
  have run: "fst (webHandler
        ((sample_env 0)\<lparr>checkPubKeyAge :=
           \<lambda>conf fp db. ((False, Some ''key store unavailable''), db)\<rparr>)
        sample_conf sample_request 0 0 Map.empty) =
     sample_prefix ''ssh-ed25519 AAAA'' @
     [EvFingerprintLegacyMD5 ''ssh-ed25519 AAAA'' ''MD5:ssh-ed25519 AAAA'',
      EvLog (Request sample_keyID),
      EvValidateHTTPParams (load_params sample_conf sample_request),
      EvCheckPubKeyAge ''MD5:ssh-ed25519 AAAA'',
      EvSignPubKey ''ssh-ed25519 AAAA'' sample_cert,
      EvWrite ''cert ssh-ed25519 AAAA'']"
    using checkPubKeyAge_error_ignored by (rule conjunct1)
  show ?thesis
    unfolding run by (simp add: sample_prefix_def)
qed

end
